theory Spec2Isabelle
  imports Complex_Main
begin

section \<open>Detection feed reducer (hook useDetectionContext)\<close>

text \<open>
  The hook keeps two pieces of React state, \<open>detections\<close> and \<open>activeAlerts\<close>, and
  registers one-shot timers with \<open>setTimeout\<close>. JavaScript numbers that hold
  confidences are modelled as reals, instants returned by \<open>Date.now()\<close> as integers
  (milliseconds). Field names that clash with HOL constants or keywords carry a prefix.
\<close>

record bounding_box =
  box_x :: real
  box_y :: real
  box_width :: real
  box_height :: real

record detection =
  det_id :: string
  camera_id :: string
  confidence :: real
  bounding_box :: bounding_box
  frame_data :: string
  created_at :: string
  camera_name :: string

record detection_alert =
  alert_camera_id :: string
  alert_confidence :: real
  timestamp :: int

text \<open>
  The state of the hook. \<open>timers\<close> lists the due times of the pending callbacks
  registered by \<open>setTimeout\<close>, in registration order.
\<close>

record feed =
  detections :: "detection list"
  activeAlerts :: "detection_alert list"
  timers :: "int list"

definition initial_feed :: feed where
  "initial_feed = \<lparr>detections = [], activeAlerts = [], timers = []\<rparr>"

text \<open>
  A promise is settled either way; \<open>p.catch(h)\<close> turns a rejection into the value of
  the handler. \<open>unhandled\<close> is what would surface from a chain left rejected.
\<close>

datatype 'a promise = Resolved 'a | Rejected string

definition catch_promise :: "'a promise \<Rightarrow> (string \<Rightarrow> 'a) \<Rightarrow> 'a promise" where
  "catch_promise p h = (case p of Resolved v \<Rightarrow> Resolved v | Rejected e \<Rightarrow> Resolved (h e))"

definition unhandled :: "'a promise \<Rightarrow> string option" where
  "unhandled p = (case p of Resolved _ \<Rightarrow> None | Rejected e \<Rightarrow> Some e)"

definition alert_of :: "detection \<Rightarrow> int \<Rightarrow> detection_alert" where
  "alert_of d stamp =
     \<lparr>alert_camera_id = camera_id d, alert_confidence = confidence d, timestamp = stamp\<rparr>"

text \<open>
  \<open>addDetection(detection, threshold)\<close>, called at instant \<open>now\<close>. The two state
  setters are given updater functions, which React queues and runs when it renders
  next, at instant \<open>stamp\<close>: that is where \<open>Date.now()\<close> is read for the alert, while
  \<open>setTimeout\<close> counts its 5000 ms from the call. \<open>audio\<close> is the promise returned
  by \<open>audio.play()\<close>. The result pairs the new state with the rejection, if any, that
  the call leaves unhandled.
\<close>

definition addDetection ::
  "int \<Rightarrow> int \<Rightarrow> unit promise \<Rightarrow> detection \<Rightarrow> real \<Rightarrow> feed \<Rightarrow> feed \<times> string option" where
  "addDetection now stamp audio d threshold s =
     (let s1 = s\<lparr>detections := take 100 (d # detections s)\<rparr> in
      if confidence d \<ge> threshold then
        (s1\<lparr>activeAlerts := alert_of d stamp # activeAlerts s1,
            timers := timers s1 @ [now + 5000]\<rparr>,
         unhandled (catch_promise audio (\<lambda>_. ())))
      else (s1, None))"

text \<open>The callback of the timer, run when \<open>Date.now()\<close> reads \<open>now\<close>.\<close>

definition expire :: "int \<Rightarrow> feed \<Rightarrow> feed" where
  "expire now s =
     s\<lparr>activeAlerts := filter (\<lambda>a. now - timestamp a < 5000) (activeAlerts s)\<rparr>"

text \<open>
  The event loop up to instant \<open>q\<close>: every pending timer due by then runs, in order of
  its due time and at its due time; the others stay pending.
\<close>

definition advance :: "int \<Rightarrow> feed \<Rightarrow> feed" where
  "advance q s =
     fold expire (sort (filter (\<lambda>t. t \<le> q) (timers s)))
       (s\<lparr>timers := filter (\<lambda>t. q < t) (timers s)\<rparr>)"

definition clearDetection :: "string \<Rightarrow> feed \<Rightarrow> feed" where
  "clearDetection detectionId s =
     s\<lparr>detections := filter (\<lambda>d. det_id d \<noteq> detectionId) (detections s)\<rparr>"

definition hasActiveAlert :: "feed \<Rightarrow> bool" where
  "hasActiveAlert s = (length (activeAlerts s) > 0)"

definition highestConfidence :: "feed \<Rightarrow> real" where
  "highestConfidence s =
     (case map alert_confidence (activeAlerts s) of
        [] \<Rightarrow> 0
      | c # cs \<Rightarrow> fold max cs c)"

text \<open>A sequence of calls, each at its own instant, with the event loop run in between.\<close>

record call =
  call_time :: int
  call_stamp :: int
  call_audio :: "unit promise"
  call_detection :: detection
  call_threshold :: real

fun recordAll :: "call list \<Rightarrow> feed \<Rightarrow> feed" where
  "recordAll [] s = s"
| "recordAll (c # cs) s =
     recordAll cs
       (fst (addDetection (call_time c) (call_stamp c) (call_audio c) (call_detection c)
          (call_threshold c) (advance (call_time c) s)))"

section \<open>Camera tile: capture-and-infer loop (CameraTile.tsx)\<close>

record camera =
  cam_id :: string
  cam_name :: string
  source_type :: string
  is_active :: bool
  stream_url :: "string option"
  position :: int

record local_detection =
  cls :: string
  local_confidence :: real
  bbox :: "real list"

text \<open>
  What one \<open>fetch\<close> of \<open>/detect\<close> comes to: the request is rejected, or a response
  arrives with its \<open>ok\<close> flag and a body, whose \<open>json()\<close> either throws or gives the
  payload's \<open>detections\<close>.
\<close>

datatype body = BadJson | Json "local_detection list"

datatype fetch_outcome = NetworkError string | Http bool body

text \<open>
  The state of one tile: the \<open>camera\<close> prop, the three pieces of React state, whether
  the tracks of the acquired stream are running, whether the interval registered by
  the inference effect is still set, and whether the component is mounted.
\<close>

record tile =
  tile_camera :: camera
  localDetections :: "local_detection list"
  tile_error :: "string option"
  isStreaming :: bool
  tracks_live :: bool
  interval_set :: bool
  mounted :: bool

definition new_tile :: "camera \<Rightarrow> tile" where
  "new_tile c =
     \<lparr>tile_camera = c, localDetections = [], tile_error = None, isStreaming = False,
      tracks_live = False, interval_set = False, mounted = True\<rparr>"

text \<open>
  The webcam effect: it does nothing unless the source is a webcam and the camera is
  active; \<open>granted\<close> tells whether \<open>getUserMedia\<close> resolved. Its cleanup stops the
  tracks of the stream.
\<close>

definition startWebcam :: "bool \<Rightarrow> tile \<Rightarrow> tile" where
  "startWebcam granted t =
     (if source_type (tile_camera t) \<noteq> ''webcam'' \<or> \<not> is_active (tile_camera t) then t
      else if granted then t\<lparr>tracks_live := True, isStreaming := True\<rparr>
      else t\<lparr>tile_error := Some ''Failed to access webcam''\<rparr>)"

definition webcam_cleanup :: "tile \<Rightarrow> tile" where
  "webcam_cleanup t = t\<lparr>tracks_live := False\<rparr>"

text \<open>
  The inference effect, which depends on \<open>isStreaming\<close> alone: it registers the
  interval when the tile is streaming (the refs to the video and the canvas are set
  once the tile is mounted), and its cleanup clears the interval.
\<close>

definition inference_effect :: "tile \<Rightarrow> tile" where
  "inference_effect t = (if \<not> isStreaming t then t else t\<lparr>interval_set := True\<rparr>)"

definition inference_cleanup :: "tile \<Rightarrow> tile" where
  "inference_cleanup t = t\<lparr>interval_set := False\<rparr>"

text \<open>
  One tick of the interval sends a frame when the interval is set and the video element
  can present a frame (\<open>readyState = 4\<close>, with a context and a blob).
\<close>

definition tick_sends :: "bool \<Rightarrow> tile \<Rightarrow> bool" where
  "tick_sends ready t = (interval_set t \<and> ready)"

text \<open>
  The continuation of the request, lines 107 to 120: the \<open>try\<close> block sets the overlay
  from an \<open>ok\<close> response; a rejected request and a body that fails to parse are caught
  and logged; a response that is not \<open>ok\<close> is dropped.
\<close>

definition handle_response :: "fetch_outcome \<Rightarrow> tile \<Rightarrow> tile" where
  "handle_response r t =
     (case r of
        NetworkError e \<Rightarrow> t
      | Http ok b \<Rightarrow>
          (if ok then (case b of BadJson \<Rightarrow> t | Json ds \<Rightarrow> t\<lparr>localDetections := ds\<rparr>)
           else t))"

text \<open>
  The continuation runs whenever the request settles, and the source puts no check in
  front of it. What is left to React: a state setter called on a component that is no
  longer mounted is dropped, so a response that arrives then changes nothing.
\<close>

definition response_arrives :: "fetch_outcome \<Rightarrow> tile \<Rightarrow> tile" where
  "response_arrives r t = (if mounted t then handle_response r t else t)"

text \<open>
  The three teardowns. Unmounting runs both cleanups and the component is gone. A
  change of the \<open>camera\<close> prop re-runs the webcam effect (cleanup, then the effect on
  the new prop); the inference effect depends on \<open>isStreaming\<close> alone and is re-run
  only when that has changed, so the interval of a streaming tile stays set.
\<close>

definition unmount :: "tile \<Rightarrow> tile" where
  "unmount t = (inference_cleanup (webcam_cleanup t))\<lparr>mounted := False\<rparr>"

definition rerun_inference :: "tile \<Rightarrow> tile \<Rightarrow> tile" where
  "rerun_inference before t =
     (if isStreaming t = isStreaming before then t else inference_effect (inference_cleanup t))"

definition deactivate_camera :: "tile \<Rightarrow> tile" where
  "deactivate_camera t =
     rerun_inference t
       (startWebcam True
          ((webcam_cleanup t)\<lparr>tile_camera := (tile_camera t)\<lparr>is_active := False\<rparr>\<rparr>))"

definition replace_stream :: "string option \<Rightarrow> bool \<Rightarrow> tile \<Rightarrow> tile" where
  "replace_stream url granted t =
     rerun_inference t
       (startWebcam granted
          ((webcam_cleanup t)\<lparr>tile_camera := (tile_camera t)\<lparr>stream_url := url\<rparr>\<rparr>))"

section \<open>Theme preference (hook useTheme)\<close>

record theme =
  isDark :: bool
  storage :: "string \<rightharpoonup> string"

text \<open>
  \<open>useState(true)\<close> followed by the mount effect; \<open>if (saved)\<close> is false for a missing
  key and for the empty string.
\<close>

definition useTheme :: "(string \<rightharpoonup> string) \<Rightarrow> theme" where
  "useTheme st =
     (case st ''lumoraTheme'' of
        None \<Rightarrow> \<lparr>isDark = True, storage = st\<rparr>
      | Some saved \<Rightarrow>
          (if saved = [] then \<lparr>isDark = True, storage = st\<rparr>
           else \<lparr>isDark = (saved = ''dark''), storage = st\<rparr>))"

definition toggleTheme :: "theme \<Rightarrow> theme" where
  "toggleTheme s =
     (let next = \<not> isDark s in
      \<lparr>isDark = next,
       storage = (storage s)(''lumoraTheme'' \<mapsto> (if next then ''dark'' else ''light''))\<rparr>)"

section \<open>The external row store, at its interface\<close>

text \<open>
  The store is an external collaborator: every request resolves to a pair of \<open>data\<close>
  and \<open>error\<close>, which the handlers below take as parameters. A thrown value is an
  instance of \<open>Error\<close> carrying a message, or something else.
\<close>

datatype thrown = ErrorInstance string | OtherValue

record 'a response =
  data :: "'a option"
  resp_error :: "thrown option"

datatype status = Disarmed | Armed | Alert

record system_state_row =
  state_id :: string
  state_status :: status
  last_updated :: string
  updated_by :: "string option"

record activity =
  event_type :: string
  status_before :: "status option"
  status_after :: status
  log_user_id :: "string option"

text \<open>
  The requests the handlers send, with the payload where a property speaks of it; the
  two selects of cameras carry the value of their filter on \<open>user_id\<close>, which is
  \<open>user?.id\<close>.
\<close>

datatype store_call =
    SelectCamerasOrdered "string option"
  | SelectCameras "string option"
  | UpdateSettingsArmed bool
  | UpdateSettingsThreshold real
  | UpsertCameras "(string \<times> nat) list"
  | SelectSystemState
  | UpdateSystemState status "string option"
  | InsertActivityLog activity

text \<open>
  Modelled from the spec: the row store is an external service and not among the
  sources. Its table of cameras holds every camera with the id of its owner. A select
  with the filter \<open>user_id = uid\<close> answers with an error or with the cameras owned by
  \<open>uid\<close>, in the order of the table or, when an order is asked for, by ascending
  position.
\<close>

record camera_row =
  row_user_id :: string
  row_camera :: camera

definition rows_of_user :: "string option \<Rightarrow> camera_row list \<Rightarrow> camera list" where
  "rows_of_user uid table = map row_camera (filter (\<lambda>r. Some (row_user_id r) = uid) table)"

definition select_cameras ::
  "thrown option \<Rightarrow> string option \<Rightarrow> camera_row list \<Rightarrow> camera list response" where
  "select_cameras failure uid table =
     (case failure of
        Some e \<Rightarrow> \<lparr>data = None, resp_error = Some e\<rparr>
      | None \<Rightarrow> \<lparr>data = Some (rows_of_user uid table), resp_error = None\<rparr>)"

definition select_cameras_ordered ::
  "thrown option \<Rightarrow> string option \<Rightarrow> camera_row list \<Rightarrow> camera list response" where
  "select_cameras_ordered failure uid table =
     (case failure of
        Some e \<Rightarrow> \<lparr>data = None, resp_error = Some e\<rparr>
      | None \<Rightarrow> \<lparr>data = Some (sort_key position (rows_of_user uid table)), resp_error = None\<rparr>)"

section \<open>Dashboard (LumoraDashboard.tsx)\<close>

record system_settings =
  settings_id :: string
  is_armed :: bool
  alert_threshold :: real
  dark_mode :: bool

text \<open>
  The state the dashboard holds: its own React state, the state of the detection hook,
  and the state of the tile mounted for each camera id.
\<close>

datatype tab = DashboardTab | ControlTab

record dashboard =
  cameras :: "camera list"
  settings :: "system_settings option"
  activeTab :: tab
  loading :: bool
  feed_state :: feed
  tiles :: "string \<rightharpoonup> tile"

text \<open>
  What a handler leaves behind: the state, the requests it sent in order, and the lines
  it wrote to the console. Every handler catches what its body throws, so none of them
  has an error result.
\<close>

record handled =
  after :: dashboard
  calls :: "store_call list"
  console :: "string list"

definition rows_or_empty :: "'a list option \<Rightarrow> 'a list" where
  "rows_or_empty d = (case d of None \<Rightarrow> [] | Some rows \<Rightarrow> rows)"

text \<open>
  \<open>loadCameras\<close>, for the signed-in user \<open>uid\<close>, given the answers of the store to
  the select with \<open>.order('position')\<close> and to the select without it.
\<close>

definition loadCameras ::
  "string option \<Rightarrow> camera list response \<Rightarrow> camera list response \<Rightarrow> dashboard \<Rightarrow> handled" where
  "loadCameras uid ordered fallback s =
     (case resp_error ordered of
        None \<Rightarrow>
          \<lparr>after = s\<lparr>cameras := rows_or_empty (data ordered), loading := False\<rparr>,
           calls = [SelectCamerasOrdered uid], console = []\<rparr>
      | Some e \<Rightarrow>
          (case resp_error fallback of
             None \<Rightarrow>
               \<lparr>after = s\<lparr>cameras := rows_or_empty (data fallback), loading := False\<rparr>,
                calls = [SelectCamerasOrdered uid, SelectCameras uid],
                console = [''Failed to load sorted cameras, falling back to unsorted:'']\<rparr>
           | Some e2 \<Rightarrow>
               \<lparr>after = s\<lparr>loading := False\<rparr>,
                calls = [SelectCamerasOrdered uid, SelectCameras uid],
                console = [''Failed to load sorted cameras, falling back to unsorted:'',
                           ''Error loading cameras:'']\<rparr>))"

definition handleArmedChange :: "bool \<Rightarrow> unit response \<Rightarrow> dashboard \<Rightarrow> handled" where
  "handleArmedChange armed updated s =
     (case resp_error updated of
        None \<Rightarrow>
          \<lparr>after = s\<lparr>settings := map_option (\<lambda>prev. prev\<lparr>is_armed := armed\<rparr>) (settings s)\<rparr>,
           calls = [UpdateSettingsArmed armed], console = []\<rparr>
      | Some e \<Rightarrow>
          \<lparr>after = s, calls = [UpdateSettingsArmed armed],
           console = [''Error updating armed status:'']\<rparr>)"

definition handleThresholdChange :: "real \<Rightarrow> unit response \<Rightarrow> dashboard \<Rightarrow> handled" where
  "handleThresholdChange threshold updated s =
     (case resp_error updated of
        None \<Rightarrow>
          \<lparr>after = s\<lparr>settings :=
                   map_option (\<lambda>prev. prev\<lparr>alert_threshold := threshold\<rparr>) (settings s)\<rparr>,
           calls = [UpdateSettingsThreshold threshold], console = []\<rparr>
      | Some e \<Rightarrow>
          \<lparr>after = s, calls = [UpdateSettingsThreshold threshold],
           console = [''Error updating threshold:'']\<rparr>)"

text \<open>
  Modelled from the spec: \<open>arrayMove\<close> is imported from the package
  \<open>@dnd-kit/sortable\<close> and is not among the sources. It is modelled as the reordering
  the spec describes, in the way the package does it: the element at \<open>fromIndex\<close> is
  taken out and put back at \<open>toIndex\<close> of what remains. With \<open>fromIndex\<close> out of
  range the package puts \<open>undefined\<close> into the array, which is no list of cameras:
  \<open>None\<close>.
\<close>

definition arrayMove :: "'a list \<Rightarrow> nat \<Rightarrow> nat \<Rightarrow> 'a list option" where
  "arrayMove array fromIndex toIndex =
     (if fromIndex < length array then
        (let rest = take fromIndex array @ drop (Suc fromIndex) array
         in Some (take toIndex rest @ [array ! fromIndex] @ drop toIndex rest))
      else None)"

definition position_updates :: "camera list \<Rightarrow> (string \<times> nat) list" where
  "position_updates newCameras = map (\<lambda>(index, c). (cam_id c, index)) (enumerate 0 newCameras)"

text \<open>
  \<open>handleReorderCameras\<close> up to its \<open>await\<close>, that is, before the store has answered,
  and then as a whole, given the answer to the upsert.
\<close>

definition reorder_optimistic :: "nat \<Rightarrow> nat \<Rightarrow> dashboard \<Rightarrow> dashboard option" where
  "reorder_optimistic oldIndex newIndex s =
     (if oldIndex = newIndex then Some s
      else map_option (\<lambda>newCameras. s\<lparr>cameras := newCameras\<rparr>)
             (arrayMove (cameras s) oldIndex newIndex))"

definition handleReorderCameras ::
  "nat \<Rightarrow> nat \<Rightarrow> unit response \<Rightarrow> dashboard \<Rightarrow> handled option" where
  "handleReorderCameras oldIndex newIndex upserted s =
     (if oldIndex = newIndex then Some \<lparr>after = s, calls = [], console = []\<rparr>
      else
        (case arrayMove (cameras s) oldIndex newIndex of
           None \<Rightarrow> None
         | Some newCameras \<Rightarrow>
             Some \<lparr>after = s\<lparr>cameras := newCameras\<rparr>,
                   calls = [UpsertCameras (position_updates newCameras)],
                   console = (case resp_error upserted of
                                None \<Rightarrow> []
                              | Some e \<Rightarrow> [''Error updating camera order:''])\<rparr>))"

text \<open>
  A response to the request of the tile of camera \<open>cid\<close>. The tile is rendered with
  the props \<open>camera\<close>, \<open>onDelete\<close> and \<open>isDark\<close> only, so its continuation reaches
  nothing but its own state.
\<close>

definition tile_response :: "string \<Rightarrow> fetch_outcome \<Rightarrow> dashboard \<Rightarrow> dashboard" where
  "tile_response cid r s =
     (case tiles s cid of
        None \<Rightarrow> s
      | Some t \<Rightarrow> s\<lparr>tiles := (tiles s)(cid \<mapsto> response_arrives r t)\<rparr>)"

text \<open>
  What the dashboard renders from the hook. While \<open>loading\<close> holds it returns the
  loading screen and nothing else. After that the banner is there when the hook has an
  active alert, with the highest confidence, and the log panel, which is part of the
  dashboard tab, lists the detections of the hook.
\<close>

definition alert_banner :: "dashboard \<Rightarrow> real option" where
  "alert_banner s =
     (if loading s then None
      else if hasActiveAlert (feed_state s) then Some (highestConfidence (feed_state s))
      else None)"

definition detection_log :: "dashboard \<Rightarrow> detection list option" where
  "detection_log s =
     (if loading s then None
      else if activeTab s = DashboardTab then Some (detections (feed_state s))
      else None)"

section \<open>Control panel (ControlPanel.tsx)\<close>

record control_panel =
  cp_loading :: bool
  cp_error :: string

record panel_result =
  panel :: control_panel
  store_calls :: "store_call list"
  onUpdate_called :: bool

definition error_message :: "thrown \<Rightarrow> string" where
  "error_message err =
     (case err of ErrorInstance m \<Rightarrow> m | OtherValue \<Rightarrow> ''Failed to update system state'')"

text \<open>
  \<open>updateSystemState(newStatus, eventType)\<close>; \<open>uid\<close> is the id of the signed-in user
  as \<open>auth.getUser()\<close> gives it, and the three responses are those of the select, the
  update and the insert. The first error is thrown to the \<open>catch\<close>, which puts its
  message into the panel. The time stamp and the \<open>updated_by\<close> of the update are left
  out of the recorded request.
\<close>

definition updateSystemState ::
  "status \<Rightarrow> string \<Rightarrow> string option \<Rightarrow> system_state_row response \<Rightarrow> unit response \<Rightarrow>
   unit response \<Rightarrow> control_panel \<Rightarrow> panel_result" where
  "updateSystemState newStatus eventType uid fetched updated logged p =
     (let sel = SelectSystemState;
          upd = UpdateSystemState newStatus (map_option state_id (data fetched));
          ins = InsertActivityLog
                  \<lparr>event_type = eventType,
                   status_before = map_option state_status (data fetched),
                   status_after = newStatus, log_user_id = uid\<rparr>
      in case resp_error fetched of
           Some e \<Rightarrow>
             \<lparr>panel = p\<lparr>cp_loading := False, cp_error := error_message e\<rparr>,
              store_calls = [sel], onUpdate_called = False\<rparr>
         | None \<Rightarrow>
             (case resp_error updated of
                Some e \<Rightarrow>
                  \<lparr>panel = p\<lparr>cp_loading := False, cp_error := error_message e\<rparr>,
                   store_calls = [sel, upd], onUpdate_called = False\<rparr>
              | None \<Rightarrow>
                  (case resp_error logged of
                     Some e \<Rightarrow>
                       \<lparr>panel = p\<lparr>cp_loading := False, cp_error := error_message e\<rparr>,
                        store_calls = [sel, upd, ins], onUpdate_called = False\<rparr>
                   | None \<Rightarrow>
                       \<lparr>panel = p\<lparr>cp_loading := False, cp_error := []\<rparr>,
                        store_calls = [sel, upd, ins], onUpdate_called = True\<rparr>)))"

section \<open>Sample values\<close>

definition sample_detection :: "string \<Rightarrow> real \<Rightarrow> detection" where
  "sample_detection cam c =
     \<lparr>det_id = cam, camera_id = cam, confidence = c,
      bounding_box = \<lparr>box_x = 0, box_y = 0, box_width = 10, box_height = 10\<rparr>,
      frame_data = [], created_at = ''2025-11-23T10:00:00Z'', camera_name = cam\<rparr>"

definition full_feed :: feed where
  "full_feed = initial_feed\<lparr>detections := replicate 100 (sample_detection ''old'' 10)\<rparr>"

definition sample_camera :: "string \<Rightarrow> camera" where
  "sample_camera n =
     \<lparr>cam_id = n, cam_name = n, source_type = ''webcam'', is_active = True,
      stream_url = None, position = 0\<rparr>"

definition streaming_tile :: "string \<Rightarrow> tile" where
  "streaming_tile n = inference_effect (startWebcam True (new_tile (sample_camera n)))"

definition gun :: local_detection where
  "gun = \<lparr>cls = ''gun'', local_confidence = 9 / 10, bbox = [10, 20, 110, 220]\<rparr>"

definition sample_dashboard :: dashboard where
  "sample_dashboard =
     \<lparr>cameras = [sample_camera ''A'', sample_camera ''B'', sample_camera ''C''],
      settings = Some \<lparr>settings_id = ''s'', is_armed = False, alert_threshold = 70,
                       dark_mode = True\<rparr>,
      activeTab = DashboardTab, loading = False, feed_state = initial_feed,
      tiles = [''A'' \<mapsto> streaming_tile ''A'']\<rparr>"

definition sample_table :: "camera_row list" where
  "sample_table =
     [\<lparr>row_user_id = ''u1'', row_camera = sample_camera ''B''\<rparr>,
      \<lparr>row_user_id = ''u2'', row_camera = sample_camera ''X''\<rparr>,
      \<lparr>row_user_id = ''u1'', row_camera = sample_camera ''A''\<rparr>]"

definition fresh_dashboard :: dashboard where
  "fresh_dashboard = sample_dashboard\<lparr>cameras := [], loading := True, tiles := Map.empty\<rparr>"

definition failed :: "'a response" where
  "failed = \<lparr>data = None, resp_error = Some (ErrorInstance ''connection lost'')\<rparr>"

definition succeeded :: "unit response" where
  "succeeded = \<lparr>data = None, resp_error = None\<rparr>"

definition fetched_row :: "system_state_row response" where
  "fetched_row =
     \<lparr>data = Some \<lparr>state_id = ''row1'', state_status = Disarmed,
                     last_updated = ''2025-11-23T10:00:00Z'', updated_by = None\<rparr>,
      resp_error = None\<rparr>"

definition idle_panel :: control_panel where
  "idle_panel = \<lparr>cp_loading = False, cp_error = []\<rparr>"

section \<open>Properties of the reducer\<close>

lemma detections_expire [simp]: "detections (expire t s) = detections s"
  by (simp add: expire_def)

lemma detections_fold_expire [simp]: "detections (fold expire ts s) = detections s"
  by (induction ts arbitrary: s) simp_all

lemma detections_advance [simp]: "detections (advance q s) = detections s"
  by (simp add: advance_def)

lemma detections_addDetection:
  "detections (fst (addDetection now stamp audio d th s)) = take 100 (d # detections s)"
  by (simp add: addDetection_def Let_def)

lemma take_append_take: "take n (xs @ take n ys) = take n (xs @ ys)"
  by (simp add: min_def)

lemma detections_recordAll:
  "length (detections s) \<le> 100 \<Longrightarrow>
   detections (recordAll cs s) = take 100 (rev (map call_detection cs) @ detections s)"
proof (induction cs arbitrary: s)
  case Nil
  then show ?case by simp
next
  case (Cons c cs)
  let ?s1 = "fst (addDetection (call_time c) (call_stamp c) (call_audio c) (call_detection c)
                (call_threshold c) (advance (call_time c) s))"
  have d1: "detections ?s1 = take 100 (call_detection c # detections s)"
    by (simp add: detections_addDetection)
  then have "length (detections ?s1) \<le> 100" by simp
  from Cons.IH [OF this] d1
  have "detections (recordAll (c # cs) s) =
        take 100 (rev (map call_detection cs) @ take 100 (call_detection c # detections s))"
    by simp
  also have "\<dots> = take 100 (rev (map call_detection cs) @ call_detection c # detections s)"
    by (rule take_append_take)
  finally show ?case by simp
qed

lemma activeAlerts_fold_expire:
  "activeAlerts (fold expire ts s) =
   filter (\<lambda>a. \<forall>t\<in>set ts. t - timestamp a < 5000) (activeAlerts s)"
proof (induction ts arbitrary: s)
  case Nil
  then show ?case by simp
next
  case (Cons t ts)
  have "activeAlerts (fold expire (t # ts) s) =
        filter (\<lambda>a. \<forall>u\<in>set ts. u - timestamp a < 5000) (activeAlerts (expire t s))"
    using Cons.IH [of "expire t s"] by simp
  also have "\<dots> = filter (\<lambda>a. \<forall>u\<in>set (t # ts). u - timestamp a < 5000) (activeAlerts s)"
    by (auto simp: expire_def intro: filter_cong)
  finally show ?case .
qed

lemma timers_fold_expire: "timers (fold expire ts s) = timers s"
  by (induction ts arbitrary: s) (simp_all add: expire_def)

lemma timers_advance: "timers (advance q s) = filter (\<lambda>t. q < t) (timers s)"
  by (simp add: advance_def timers_fold_expire)

lemma activeAlerts_advance:
  "activeAlerts (advance q s) =
   filter (\<lambda>a. \<forall>t\<in>set (timers s). t \<le> q \<longrightarrow> t - timestamp a < 5000) (activeAlerts s)"
proof -
  have "activeAlerts (advance q s) =
        filter (\<lambda>a. \<forall>t\<in>set (sort (filter (\<lambda>t. t \<le> q) (timers s))). t - timestamp a < 5000)
          (activeAlerts s)"
    by (simp add: advance_def activeAlerts_fold_expire del: set_sort)
  also have "\<dots> = filter (\<lambda>a. \<forall>t\<in>set (timers s). t \<le> q \<longrightarrow> t - timestamp a < 5000)
          (activeAlerts s)"
    by (rule filter_cong) auto
  finally show ?thesis .
qed

text \<open>
  The active alerts after a call: at or above the threshold one record is put in front,
  with the camera and the confidence of the event and the instant read by the updater;
  below the threshold nothing is. What \<open>audio.play()\<close> comes to plays no part.
\<close>

lemma alerts_after_addDetection:
  "activeAlerts (fst (addDetection now stamp audio d th s)) =
     (if th \<le> confidence d
      then \<lparr>alert_camera_id = camera_id d, alert_confidence = confidence d,
            timestamp = stamp\<rparr> # activeAlerts s
      else activeAlerts s)"
  by (simp add: addDetection_def Let_def alert_of_def)

lemma rejected_playback_swallowed:
  "snd (addDetection now stamp (Rejected e) d th s) = None"
  "fst (addDetection now stamp (Rejected e) d th s)
     = fst (addDetection now stamp (Resolved ()) d th s)"
  by (simp_all add: addDetection_def Let_def catch_promise_def unhandled_def)

lemma activeAlerts_raised:
  "th \<le> confidence d \<Longrightarrow>
   activeAlerts (fst (addDetection now stamp audio d th s)) = alert_of d stamp # activeAlerts s"
  by (simp add: addDetection_def Let_def)

lemma timers_raised:
  "th \<le> confidence d \<Longrightarrow>
   timers (fst (addDetection now stamp audio d th s)) = timers s @ [now + 5000]"
  by (simp add: addDetection_def Let_def)

lemma timestamp_alert_of [simp]: "timestamp (alert_of d stamp) = stamp"
  by (simp add: alert_of_def)

text \<open>
  Where the window of an alert holds and where it does not. Up to 5000 ms after the
  call the alert is there. From then on it is gone when the updater read the clock no
  later than the call was made; when it read the clock later, the one timer of the call
  finds the alert younger than 5000 ms and keeps it, and so does every timer due before
  the alert is 5000 ms old.
\<close>

lemma raised_present:
  assumes "th \<le> confidence d" "now \<le> stamp" "q < now + 5000"
  shows "alert_of d stamp
           \<in> set (activeAlerts (advance q (fst (addDetection now stamp audio d th s))))"
  using assms by (auto simp: activeAlerts_advance activeAlerts_raised timers_raised)

lemma raised_absent:
  assumes "th \<le> confidence d" "stamp \<le> now" "now + 5000 \<le> q"
  shows "alert_of d stamp
           \<notin> set (activeAlerts (advance q (fst (addDetection now stamp audio d th s))))"
  using assms by (auto simp: activeAlerts_advance activeAlerts_raised timers_raised)

lemma raised_stays:
  assumes "th \<le> confidence d" "now < stamp" "\<forall>t\<in>set (timers s). t < stamp + 5000"
  shows "alert_of d stamp
           \<in> set (activeAlerts (advance q (fst (addDetection now stamp audio d th s))))"
  using assms by (auto simp: activeAlerts_advance activeAlerts_raised timers_raised)

lemma fold_max_ge: "(c::real) \<le> fold max cs c"
proof (induction cs arbitrary: c)
  case Nil
  then show ?case by simp
next
  case (Cons x xs)
  have "c \<le> max x c" by simp
  also have "\<dots> \<le> fold max xs (max x c)" by (rule Cons.IH)
  finally show ?case by simp
qed

text \<open>
  C5. Whatever the sequence of calls of \<open>addDetection\<close> from the initial state, the
  buffer holds at most 100 entries and lists the recorded events from the most recent
  to the oldest; one call puts its event in front and keeps the 99 most recent of the
  others, so that on a full buffer it is the oldest entry that goes.
\<close>

theorem detection_buffer_capped:
  "length (detections (recordAll cs initial_feed)) \<le> 100
   \<and> detections (recordAll cs initial_feed) = take 100 (rev (map call_detection cs))
   \<and> detections (fst (addDetection now stamp audio d th s)) = d # take 99 (detections s)
   \<and> (length (detections s) = 100 \<longrightarrow>
        detections (fst (addDetection now stamp audio d th s)) = d # butlast (detections s))"
proof -
  have "detections (recordAll cs initial_feed) = take 100 (rev (map call_detection cs))"
    using detections_recordAll [of initial_feed cs] by (simp add: initial_feed_def)
  moreover have
    "detections (fst (addDetection now stamp audio d th s)) = d # take 99 (detections s)"
    by (simp add: detections_addDetection take_Suc_Cons)
  moreover have "take 99 (detections s) = butlast (detections s)"
    if "length (detections s) = 100"
    using that by (simp add: butlast_conv_take)
  ultimately show ?thesis by simp
qed

theorem detection_buffer_capped_witness:
  "length (detections full_feed) = 100
   \<and> detections (fst (addDetection 0 0 (Resolved ()) (sample_detection ''new'' 90) 70 full_feed))
       = sample_detection ''new'' 90 # butlast (detections full_feed)"
  using detection_buffer_capped
    [where cs = "[]" and now = 0 and stamp = 0 and audio = "Resolved ()"
       and d = "sample_detection ''new'' 90" and th = 70 and s = full_feed]
  by (simp add: full_feed_def butlast_conv_take)

text \<open>
  C6 on the code. The call is made at instant 1000 with a confidence of 90 against a
  threshold of 70, playback is refused, and React runs the updater one millisecond
  later. One alert is put in and nothing is left unhandled, but the alert is stamped
  1001, the instant of the updater, not the instant of the call. The same call with a
  confidence of 50 puts no alert in.
\<close>

theorem alert_stamped_by_updater:
  "activeAlerts (fst (addDetection 1000 1001 (Rejected ''NotAllowedError'')
       (sample_detection ''A'' 90) 70 initial_feed))
     = [\<lparr>alert_camera_id = ''A'', alert_confidence = 90, timestamp = 1001\<rparr>]
   \<and> snd (addDetection 1000 1001 (Rejected ''NotAllowedError'')
       (sample_detection ''A'' 90) 70 initial_feed) = None
   \<and> activeAlerts (fst (addDetection 1000 1001 (Rejected ''NotAllowedError'')
       (sample_detection ''A'' 50) 70 initial_feed)) = []"
  by (simp add: alerts_after_addDetection rejected_playback_swallowed sample_detection_def
      initial_feed_def)

text \<open>
  C3 on the code. The call is made at instant 0 and React runs the updater one
  millisecond later, so the alert is created at instant 1 while its timer is due at
  5000. The timer finds the alert 4999 ms old and keeps it; no timer is left after
  that. The alert is among the active alerts at instant 5001, which is 5000 ms after
  its creation, and at any later instant, here 3600000.
\<close>

theorem alert_outlives_window:
  "activeAlerts (advance 5001
       (fst (addDetection 0 1 (Resolved ()) (sample_detection ''A'' 90) 70 initial_feed)))
     = [\<lparr>alert_camera_id = ''A'', alert_confidence = 90, timestamp = 1\<rparr>]
   \<and> timers (advance 5001
       (fst (addDetection 0 1 (Resolved ()) (sample_detection ''A'' 90) 70 initial_feed))) = []
   \<and> activeAlerts (advance 3600000
       (fst (addDetection 0 1 (Resolved ()) (sample_detection ''A'' 90) 70 initial_feed)))
     = [\<lparr>alert_camera_id = ''A'', alert_confidence = 90, timestamp = 1\<rparr>]"
  by (simp add: activeAlerts_advance timers_advance alerts_after_addDetection timers_raised
      sample_detection_def initial_feed_def)

section \<open>Properties of the camera tile\<close>

text \<open>
  C9. A response that is \<open>ok\<close> sets the overlay list of the tile to the detections it
  carries, whatever the list held before, and changes nothing else; a rejected request
  and a response that is not \<open>ok\<close> leave the tile as it was.
\<close>

theorem overlay_replaced_or_kept:
  "handle_response (Http True (Json ds)) t = t\<lparr>localDetections := ds\<rparr>
   \<and> localDetections (handle_response (Http True (Json ds)) (t\<lparr>localDetections := old\<rparr>)) = ds
   \<and> handle_response (NetworkError e) t = t
   \<and> handle_response (Http False b) t = t"
  by (simp add: handle_response_def)

lemma mounted_startWebcam [simp]: "mounted (startWebcam granted t) = mounted t"
  by (simp add: startWebcam_def)

lemma mounted_rerun_inference [simp]: "mounted (rerun_inference before t) = mounted t"
  by (simp add: rerun_inference_def inference_effect_def inference_cleanup_def)

lemma mounted_deactivate_camera [simp]: "mounted (deactivate_camera t) = mounted t"
  by (simp add: deactivate_camera_def webcam_cleanup_def)

lemma mounted_replace_stream [simp]: "mounted (replace_stream url granted t) = mounted t"
  by (simp add: replace_stream_def webcam_cleanup_def)

lemma mounted_unmount [simp]: "mounted (unmount t) = False"
  by (simp add: unmount_def)

text \<open>
  C2 does not hold as stated: the continuation of a request checks nothing about the
  tile it belongs to. After the camera of a streaming tile is deactivated, or its
  stream replaced, the tile is still mounted with an empty overlay and its interval
  set; an \<open>ok\<close> response that resolves then puts its detection into the overlay.
\<close>

theorem response_after_teardown_counterexample:
  "localDetections (deactivate_camera (streaming_tile ''A'')) = []
   \<and> interval_set (deactivate_camera (streaming_tile ''A'')) = True
   \<and> localDetections
        (response_arrives (Http True (Json [gun])) (deactivate_camera (streaming_tile ''A'')))
      = [gun]
   \<and> response_arrives (Http True (Json [gun])) (deactivate_camera (streaming_tile ''A''))
      \<noteq> deactivate_camera (streaming_tile ''A'')
   \<and> localDetections (replace_stream (Some ''device2'') True (streaming_tile ''A'')) = []
   \<and> localDetections
        (response_arrives (Http True (Json [gun]))
           (replace_stream (Some ''device2'') True (streaming_tile ''A'')))
      = [gun]"
  by (simp add: response_arrives_def handle_response_def deactivate_camera_def
      replace_stream_def rerun_inference_def streaming_tile_def inference_effect_def
      startWebcam_def webcam_cleanup_def new_tile_def sample_camera_def)

text \<open>
  C2, as amended. A response that resolves after its tile was unmounted is a no-op,
  whatever the response: the tile, and with it the overlay list, is what the unmounting
  left. Deactivating the camera and replacing the stream leave the tile mounted, and a
  response that resolves after either is applied like any other: when it is \<open>ok\<close>, its
  detections become the overlay list and nothing else changes; a rejected request and
  a response that is not \<open>ok\<close> change nothing.
\<close>

theorem response_after_teardown:
  "response_arrives r (unmount t) = unmount t
   \<and> mounted (unmount t) = False
   \<and> mounted (deactivate_camera t) = mounted t
   \<and> mounted (replace_stream url granted t) = mounted t
   \<and> (mounted t \<longrightarrow>
        response_arrives (Http True (Json ds)) (deactivate_camera t)
          = (deactivate_camera t)\<lparr>localDetections := ds\<rparr>
        \<and> response_arrives (Http True (Json ds)) (replace_stream url granted t)
          = (replace_stream url granted t)\<lparr>localDetections := ds\<rparr>)
   \<and> response_arrives (NetworkError e) (deactivate_camera t) = deactivate_camera t
   \<and> response_arrives (Http False b) (deactivate_camera t) = deactivate_camera t
   \<and> response_arrives (NetworkError e) (replace_stream url granted t)
       = replace_stream url granted t
   \<and> response_arrives (Http False b) (replace_stream url granted t)
       = replace_stream url granted t"
  by (simp add: response_arrives_def handle_response_def)

theorem response_after_teardown_witness:
  "mounted (streaming_tile ''A'')
   \<and> localDetections (unmount ((streaming_tile ''A'')\<lparr>localDetections := [gun]\<rparr>)) = [gun]
   \<and> localDetections
        (response_arrives (Http True (Json []))
           (unmount ((streaming_tile ''A'')\<lparr>localDetections := [gun]\<rparr>))) = [gun]
   \<and> localDetections
        (response_arrives (Http True (Json [gun])) (deactivate_camera (streaming_tile ''A'')))
      = [gun]
   \<and> localDetections
        (response_arrives (Http True (Json [gun]))
           (replace_stream (Some ''device2'') False (streaming_tile ''A'')))
      = [gun]"
proof -
  have m: "mounted (streaming_tile ''A'')"
    by (simp add: streaming_tile_def inference_effect_def startWebcam_def new_tile_def)
  have u: "localDetections (unmount ((streaming_tile ''A'')\<lparr>localDetections := [gun]\<rparr>)) = [gun]"
    by (simp add: unmount_def inference_cleanup_def webcam_cleanup_def)
  note gone = response_after_teardown
    [where r = "Http True (Json [])"
       and t = "(streaming_tile ''A'')\<lparr>localDetections := [gun]\<rparr>"]
  note live = response_after_teardown
    [where t = "streaming_tile ''A''" and ds = "[gun]" and url = "Some ''device2''"
       and granted = False]
  show ?thesis using m u gone live by simp
qed

section \<open>Properties of the dashboard\<close>

text \<open>
  C1 does not hold as stated: \<open>addDetection\<close> has no caller. On the sample dashboard
  the tile of camera A receives an \<open>ok\<close> response with one detection: the overlay of
  the tile holds it, while the buffer of detections and the active alerts stay empty,
  so the log panel lists nothing and no banner is raised.
\<close>

theorem inference_not_recorded_counterexample:
  "map_option localDetections
       (tiles (tile_response ''A'' (Http True (Json [gun])) sample_dashboard) ''A'') = Some [gun]
   \<and> detections (feed_state (tile_response ''A'' (Http True (Json [gun])) sample_dashboard)) = []
   \<and> activeAlerts (feed_state (tile_response ''A'' (Http True (Json [gun])) sample_dashboard)) = []
   \<and> detection_log (tile_response ''A'' (Http True (Json [gun])) sample_dashboard) = Some []
   \<and> alert_banner (tile_response ''A'' (Http True (Json [gun])) sample_dashboard) = None"
  by (simp add: tile_response_def sample_dashboard_def response_arrives_def
      handle_response_def initial_feed_def detection_log_def alert_banner_def
      hasActiveAlert_def streaming_tile_def inference_effect_def startWebcam_def new_tile_def
      sample_camera_def)

text \<open>
  C1, as amended. An \<open>ok\<close> response to the mounted tile of a camera makes its
  detections the overlay list of that tile and changes nothing else in the dashboard:
  not the other tiles, the cameras, the settings, the tab, nor the state of the
  detection hook, so that the banner and the log panel are what they were; without a
  tile of that camera nothing changes at all. What drives the banner and the log panel
  is the hook: once loading is over, a detection recorded by \<open>addDetection\<close> at or
  above the threshold raises the banner with a confidence of at least its own, no
  active alert means no banner, and on the dashboard tab the log panel lists the buffer
  with the new detection in front; while loading, neither is rendered.
\<close>

theorem inference_stays_in_tile:
  "(tiles s cid = Some t \<and> mounted t \<longrightarrow>
      tile_response cid (Http True (Json ds)) s
        = s\<lparr>tiles := (tiles s)(cid \<mapsto> t\<lparr>localDetections := ds\<rparr>)\<rparr>)
   \<and> (tiles s cid = None \<longrightarrow> tile_response cid r s = s)
   \<and> (other \<noteq> cid \<longrightarrow> tiles (tile_response cid r s) other = tiles s other)
   \<and> cameras (tile_response cid r s) = cameras s
   \<and> settings (tile_response cid r s) = settings s
   \<and> activeTab (tile_response cid r s) = activeTab s
   \<and> loading (tile_response cid r s) = loading s
   \<and> feed_state (tile_response cid r s) = feed_state s
   \<and> detection_log (tile_response cid r s) = detection_log s
   \<and> alert_banner (tile_response cid r s) = alert_banner s
   \<and> (\<not> loading s \<and> th \<le> confidence d \<longrightarrow>
        (\<exists>c. alert_banner
                (s\<lparr>feed_state := fst (addDetection now stamp audio d th (feed_state s))\<rparr>)
              = Some c \<and> confidence d \<le> c))
   \<and> (activeAlerts (feed_state s) = [] \<longrightarrow> alert_banner s = None)
   \<and> (\<not> loading s \<and> activeTab s = DashboardTab \<longrightarrow>
        detection_log (s\<lparr>feed_state := fst (addDetection now stamp audio d th (feed_state s))\<rparr>)
          = Some (take 100 (d # detections (feed_state s))))
   \<and> (loading s \<longrightarrow> alert_banner s = None \<and> detection_log s = None)"
proof -
  have frame:
    "(tiles s cid = Some t \<and> mounted t \<longrightarrow>
      tile_response cid (Http True (Json ds)) s
        = s\<lparr>tiles := (tiles s)(cid \<mapsto> t\<lparr>localDetections := ds\<rparr>)\<rparr>)
     \<and> (tiles s cid = None \<longrightarrow> tile_response cid r s = s)
     \<and> (other \<noteq> cid \<longrightarrow> tiles (tile_response cid r s) other = tiles s other)
     \<and> cameras (tile_response cid r s) = cameras s
     \<and> settings (tile_response cid r s) = settings s
     \<and> activeTab (tile_response cid r s) = activeTab s
     \<and> loading (tile_response cid r s) = loading s
     \<and> feed_state (tile_response cid r s) = feed_state s"
    by (simp add: tile_response_def response_arrives_def handle_response_def
        split: option.split)
  then have shown:
    "detection_log (tile_response cid r s) = detection_log s
     \<and> alert_banner (tile_response cid r s) = alert_banner s"
    by (simp add: detection_log_def alert_banner_def)
  have raised: "\<exists>c. alert_banner
                (s\<lparr>feed_state := fst (addDetection now stamp audio d th (feed_state s))\<rparr>)
              = Some c \<and> confidence d \<le> c"
    if "\<not> loading s" "th \<le> confidence d"
    using that fold_max_ge [of "confidence d" "map alert_confidence (activeAlerts (feed_state s))"]
    by (simp add: alert_banner_def hasActiveAlert_def highestConfidence_def
        alerts_after_addDetection)
  have quiet: "alert_banner s = None" if "activeAlerts (feed_state s) = []"
    using that by (simp add: alert_banner_def hasActiveAlert_def)
  have logged:
    "detection_log (s\<lparr>feed_state := fst (addDetection now stamp audio d th (feed_state s))\<rparr>)
       = Some (take 100 (d # detections (feed_state s)))"
    if "\<not> loading s" "activeTab s = DashboardTab"
    using that by (simp add: detection_log_def detections_addDetection)
  have waiting: "alert_banner s = None \<and> detection_log s = None" if "loading s"
    using that by (simp add: alert_banner_def detection_log_def)
  from frame shown raised quiet logged waiting show ?thesis by blast
qed

theorem inference_stays_in_tile_witness:
  "tiles sample_dashboard ''A'' = Some (streaming_tile ''A'')
   \<and> mounted (streaming_tile ''A'')
   \<and> tile_response ''A'' (Http True (Json [gun])) sample_dashboard
       = sample_dashboard
           \<lparr>tiles := (tiles sample_dashboard)
              (''A'' \<mapsto> (streaming_tile ''A'')\<lparr>localDetections := [gun]\<rparr>)\<rparr>
   \<and> tiles sample_dashboard ''B'' = None
   \<and> tile_response ''B'' (Http True (Json [gun])) sample_dashboard = sample_dashboard
   \<and> \<not> loading sample_dashboard
   \<and> (70::real) \<le> confidence (sample_detection ''A'' 90)
   \<and> alert_banner
        (sample_dashboard\<lparr>feed_state :=
           fst (addDetection 0 0 (Resolved ()) (sample_detection ''A'' 90) 70
                  (feed_state sample_dashboard))\<rparr>) = Some 90
   \<and> activeAlerts (feed_state sample_dashboard) = []
   \<and> alert_banner sample_dashboard = None
   \<and> activeTab sample_dashboard = DashboardTab
   \<and> detection_log
        (sample_dashboard\<lparr>feed_state :=
           fst (addDetection 0 0 (Resolved ()) (sample_detection ''A'' 90) 70
                  (feed_state sample_dashboard))\<rparr>) = Some [sample_detection ''A'' 90]
   \<and> loading fresh_dashboard
   \<and> detection_log fresh_dashboard = None"
proof -
  have facts:
    "tiles sample_dashboard ''A'' = Some (streaming_tile ''A'')"
    "mounted (streaming_tile ''A'')"
    "tiles sample_dashboard ''B'' = None"
    "\<not> loading sample_dashboard"
    "(70::real) \<le> confidence (sample_detection ''A'' 90)"
    "activeAlerts (feed_state sample_dashboard) = []"
    "activeTab sample_dashboard = DashboardTab"
    "detections (feed_state sample_dashboard) = []"
    by (simp_all add: sample_dashboard_def streaming_tile_def inference_effect_def
        startWebcam_def new_tile_def sample_detection_def initial_feed_def)
  note at_A = inference_stays_in_tile
    [where s = sample_dashboard and cid = "''A''" and t = "streaming_tile ''A''"
       and ds = "[gun]" and th = 70 and d = "sample_detection ''A'' 90" and now = 0
       and stamp = 0 and audio = "Resolved ()"]
  note at_B = inference_stays_in_tile
    [where s = sample_dashboard and cid = "''B''" and r = "Http True (Json [gun])"]
  have banner: "alert_banner
        (sample_dashboard\<lparr>feed_state :=
           fst (addDetection 0 0 (Resolved ()) (sample_detection ''A'' 90) 70
                  (feed_state sample_dashboard))\<rparr>) = Some 90"
    using facts
    by (simp add: alert_banner_def hasActiveAlert_def highestConfidence_def
        alerts_after_addDetection sample_detection_def)
  have busy: "loading fresh_dashboard"
    by (simp add: fresh_dashboard_def)
  note at_start = inference_stays_in_tile [where s = fresh_dashboard]
  show ?thesis using facts at_A at_B banner busy at_start by simp
qed

text \<open>
  C7. Reordering the cameras a, b, c with \<open>handleReorderCameras(0, 2)\<close> gives the
  local order b, c, a already before the store has answered, and the same order once
  it has, whether the upsert succeeded or failed. For all indices the local order
  after the call is the optimistic one, whatever the answer of the store.
\<close>

theorem reorder_kept_whatever_the_store_answers:
  "(cameras s = [a, b, c] \<longrightarrow>
      map_option cameras (reorder_optimistic 0 2 s) = Some [b, c, a]
      \<and> map_option (cameras \<circ> after) (handleReorderCameras 0 2 upserted s) = Some [b, c, a])
   \<and> map_option (cameras \<circ> after) (handleReorderCameras i j upserted s)
       = map_option cameras (reorder_optimistic i j s)"
  by (simp add: reorder_optimistic_def handleReorderCameras_def arrayMove_def
      split: option.split)

theorem reorder_kept_whatever_the_store_answers_witness:
  "cameras sample_dashboard = [sample_camera ''A'', sample_camera ''B'', sample_camera ''C'']
   \<and> map_option cameras (reorder_optimistic 0 2 sample_dashboard)
       = Some [sample_camera ''B'', sample_camera ''C'', sample_camera ''A'']
   \<and> map_option (cameras \<circ> after) (handleReorderCameras 0 2 failed sample_dashboard)
       = Some [sample_camera ''B'', sample_camera ''C'', sample_camera ''A'']
   \<and> map_option (cameras \<circ> after) (handleReorderCameras 0 2 succeeded sample_dashboard)
       = Some [sample_camera ''B'', sample_camera ''C'', sample_camera ''A'']"
proof -
  have h: "cameras sample_dashboard
           = [sample_camera ''A'', sample_camera ''B'', sample_camera ''C'']"
    by (simp add: sample_dashboard_def)
  show ?thesis
    using h
      reorder_kept_whatever_the_store_answers
        [where s = sample_dashboard and a = "sample_camera ''A''" and b = "sample_camera ''B''"
           and c = "sample_camera ''C''" and upserted = failed and i = 0 and j = 0]
      reorder_kept_whatever_the_store_answers
        [where s = sample_dashboard and a = "sample_camera ''A''" and b = "sample_camera ''B''"
           and c = "sample_camera ''C''" and upserted = succeeded and i = 0 and j = 0]
    by blast
qed

text \<open>
  C8 does not hold as stated. The table holds two cameras of user u1, and both selects
  fail on the first load: the list of cameras stays empty, and the failure goes to the
  console.
\<close>

theorem loadCameras_double_failure_counterexample:
  "rows_of_user (Some ''u1'') sample_table = [sample_camera ''B'', sample_camera ''A'']
   \<and> cameras (after (loadCameras (Some ''u1'')
        (select_cameras_ordered (Some (ErrorInstance ''connection lost'')) (Some ''u1'')
           sample_table)
        (select_cameras (Some (ErrorInstance ''connection lost'')) (Some ''u1'') sample_table)
        fresh_dashboard)) = []
   \<and> console (loadCameras (Some ''u1'')
        (select_cameras_ordered (Some (ErrorInstance ''connection lost'')) (Some ''u1'')
           sample_table)
        (select_cameras (Some (ErrorInstance ''connection lost'')) (Some ''u1'') sample_table)
        fresh_dashboard)
      = [''Failed to load sorted cameras, falling back to unsorted:'',
         ''Error loading cameras:'']"
  by (simp add: loadCameras_def select_cameras_def select_cameras_ordered_def
      rows_of_user_def sample_table_def fresh_dashboard_def sample_dashboard_def)

text \<open>
  C8, as amended. When the ordered select of the cameras fails, \<open>loadCameras\<close> sends
  the select without ordering, with the same filter on the user, and ends loading.
  When that select succeeds, the rows it returns become the list of cameras, and with
  the store they are all the cameras of the user in the table, in the order of the
  table. When it fails too, the list of cameras is left as it was and the failure is
  written to the console; nothing is thrown.
\<close>

theorem loadCameras_falls_back:
  "(resp_error ordered = Some e \<longrightarrow>
      calls (loadCameras uid ordered fallback s) = [SelectCamerasOrdered uid, SelectCameras uid]
      \<and> loading (after (loadCameras uid ordered fallback s)) = False)
   \<and> (resp_error ordered = Some e \<and> resp_error fallback = None \<longrightarrow>
      after (loadCameras uid ordered fallback s)
        = s\<lparr>cameras := rows_or_empty (data fallback), loading := False\<rparr>
      \<and> console (loadCameras uid ordered fallback s)
        = [''Failed to load sorted cameras, falling back to unsorted:''])
   \<and> (resp_error ordered = Some e \<and> resp_error fallback = Some e2 \<longrightarrow>
      after (loadCameras uid ordered fallback s) = s\<lparr>loading := False\<rparr>
      \<and> console (loadCameras uid ordered fallback s)
        = [''Failed to load sorted cameras, falling back to unsorted:'',
           ''Error loading cameras:''])
   \<and> cameras (after (loadCameras uid (select_cameras_ordered (Some e) uid table)
        (select_cameras None uid table) s)) = rows_of_user uid table
   \<and> cameras (after (loadCameras uid (select_cameras_ordered (Some e) uid table)
        (select_cameras (Some e2) uid table) s)) = cameras s"
  by (simp add: loadCameras_def rows_or_empty_def select_cameras_def
      select_cameras_ordered_def split: option.split)

theorem loadCameras_falls_back_witness:
  "resp_error (failed :: camera list response) = Some (ErrorInstance ''connection lost'')
   \<and> resp_error (select_cameras None (Some ''u1'') sample_table) = None
   \<and> after (loadCameras (Some ''u1'') failed (select_cameras None (Some ''u1'') sample_table)
        fresh_dashboard)
      = fresh_dashboard\<lparr>cameras := [sample_camera ''B'', sample_camera ''A''],
                         loading := False\<rparr>
   \<and> calls (loadCameras (Some ''u1'') failed (select_cameras None (Some ''u1'') sample_table)
        fresh_dashboard)
      = [SelectCamerasOrdered (Some ''u1''), SelectCameras (Some ''u1'')]
   \<and> after (loadCameras (Some ''u1'') failed failed fresh_dashboard)
      = fresh_dashboard\<lparr>loading := False\<rparr>"
proof -
  have ko: "resp_error (failed :: camera list response) = Some (ErrorInstance ''connection lost'')"
    and ok: "resp_error (select_cameras None (Some ''u1'') sample_table) = None"
    and rows: "rows_or_empty (data (select_cameras None (Some ''u1'') sample_table))
               = [sample_camera ''B'', sample_camera ''A'']"
    by (simp_all add: failed_def select_cameras_def rows_or_empty_def rows_of_user_def
        sample_table_def)
  note recovered = loadCameras_falls_back
    [where ordered = failed and e = "ErrorInstance ''connection lost''"
       and fallback = "select_cameras None (Some ''u1'') sample_table"
       and uid = "Some ''u1''" and s = fresh_dashboard]
  note lost = loadCameras_falls_back
    [where ordered = failed and e = "ErrorInstance ''connection lost''"
       and fallback = failed and ?e2.0 = "ErrorInstance ''connection lost''"
       and uid = "Some ''u1''" and s = fresh_dashboard]
  show ?thesis using ko ok rows recovered lost by simp
qed

section \<open>Properties of the settings and of the control panel\<close>

text \<open>
  C4 does not hold as stated. When the update of the state row fails,
  \<open>updateSystemState\<close> has sent the select and the update and no insert into the
  activity log. When the update of the settings row fails, \<open>handleArmedChange\<close> has
  sent that update alone, the local settings still say disarmed, and the error went to
  the console.
\<close>

theorem settings_change_counterexample:
  "store_calls (updateSystemState Armed ''armed'' (Some ''u1'') fetched_row failed succeeded
       idle_panel)
     = [SelectSystemState, UpdateSystemState Armed (Some ''row1'')]
   \<and> calls (handleArmedChange True failed sample_dashboard) = [UpdateSettingsArmed True]
   \<and> map_option is_armed (settings (after (handleArmedChange True failed sample_dashboard)))
       = Some False
   \<and> console (handleArmedChange True failed sample_dashboard)
       = [''Error updating armed status:'']"
  by (simp add: updateSystemState_def handleArmedChange_def fetched_row_def failed_def
      succeeded_def sample_dashboard_def Let_def)

text \<open>
  C4, as amended. \<open>updateSystemState\<close> selects the state row, updates it and then
  inserts an activity record with the status before and after; the first request that
  fails ends the sequence, its message is put into the panel, and \<open>onUpdate\<close> is called
  only when all three succeeded. \<open>handleArmedChange\<close> and \<open>handleThresholdChange\<close>
  send one update of the settings row and nothing else; when it fails the local state
  is left as it was and one line is written to the console, and when it succeeds the
  local settings take the new value and nothing is written.
\<close>

theorem settings_change_sequence:
  "(let R = updateSystemState newStatus eventType uid fetched updated logged p;
        sel = SelectSystemState;
        upd = UpdateSystemState newStatus (map_option state_id (data fetched));
        ins = InsertActivityLog
                \<lparr>event_type = eventType, status_before = map_option state_status (data fetched),
                 status_after = newStatus, log_user_id = uid\<rparr>
    in (resp_error fetched = None \<and> resp_error updated = None \<and> resp_error logged = None \<longrightarrow>
          store_calls R = [sel, upd, ins] \<and> onUpdate_called R \<and> cp_error (panel R) = [])
     \<and> (resp_error fetched = Some e \<longrightarrow>
          store_calls R = [sel] \<and> \<not> onUpdate_called R \<and> cp_error (panel R) = error_message e)
     \<and> (resp_error fetched = None \<and> resp_error updated = Some e \<longrightarrow>
          store_calls R = [sel, upd] \<and> \<not> onUpdate_called R
          \<and> cp_error (panel R) = error_message e)
     \<and> (resp_error fetched = None \<and> resp_error updated = None \<and> resp_error logged = Some e \<longrightarrow>
          store_calls R = [sel, upd, ins] \<and> \<not> onUpdate_called R
          \<and> cp_error (panel R) = error_message e))
   \<and> calls (handleArmedChange armed r s) = [UpdateSettingsArmed armed]
   \<and> calls (handleThresholdChange n r s) = [UpdateSettingsThreshold n]
   \<and> (resp_error r = Some e \<longrightarrow>
        after (handleArmedChange armed r s) = s \<and> after (handleThresholdChange n r s) = s
        \<and> console (handleArmedChange armed r s) = [''Error updating armed status:'']
        \<and> console (handleThresholdChange n r s) = [''Error updating threshold:''])
   \<and> (resp_error r = None \<longrightarrow>
        after (handleArmedChange armed r s)
          = s\<lparr>settings := map_option (\<lambda>prev. prev\<lparr>is_armed := armed\<rparr>) (settings s)\<rparr>
        \<and> after (handleThresholdChange n r s)
          = s\<lparr>settings := map_option (\<lambda>prev. prev\<lparr>alert_threshold := n\<rparr>) (settings s)\<rparr>
        \<and> console (handleArmedChange armed r s) = []
        \<and> console (handleThresholdChange n r s) = [])"
  by (simp add: updateSystemState_def handleArmedChange_def handleThresholdChange_def Let_def
      split: option.split)

theorem settings_change_sequence_witness:
  "resp_error fetched_row = None \<and> resp_error succeeded = None
   \<and> resp_error (failed :: unit response) = Some (ErrorInstance ''connection lost'')
   \<and> store_calls (updateSystemState Armed ''armed'' (Some ''u1'') fetched_row succeeded succeeded
         idle_panel)
       = [SelectSystemState, UpdateSystemState Armed (Some ''row1''),
          InsertActivityLog \<lparr>event_type = ''armed'', status_before = Some Disarmed,
                             status_after = Armed, log_user_id = Some ''u1''\<rparr>]
   \<and> onUpdate_called (updateSystemState Armed ''armed'' (Some ''u1'') fetched_row succeeded
         succeeded idle_panel)
   \<and> store_calls (updateSystemState Armed ''armed'' (Some ''u1'') fetched_row failed succeeded
         idle_panel)
       = [SelectSystemState, UpdateSystemState Armed (Some ''row1'')]
   \<and> cp_error (panel (updateSystemState Armed ''armed'' (Some ''u1'') fetched_row failed
         succeeded idle_panel)) = ''connection lost''
   \<and> cp_error (panel (updateSystemState Armed ''armed'' (Some ''u1'') fetched_row succeeded
         failed idle_panel)) = ''connection lost''
   \<and> store_calls (updateSystemState Armed ''armed'' (Some ''u1'') failed succeeded succeeded
         idle_panel) = [SelectSystemState]
   \<and> after (handleArmedChange True failed sample_dashboard) = sample_dashboard
   \<and> console (handleArmedChange True failed sample_dashboard)
       = [''Error updating armed status:'']
   \<and> after (handleThresholdChange 85 failed sample_dashboard) = sample_dashboard
   \<and> console (handleThresholdChange 85 failed sample_dashboard)
       = [''Error updating threshold:'']
   \<and> map_option is_armed (settings (after (handleArmedChange True succeeded sample_dashboard)))
       = Some True
   \<and> map_option alert_threshold
        (settings (after (handleThresholdChange 85 succeeded sample_dashboard))) = Some 85
   \<and> console (handleThresholdChange 85 succeeded sample_dashboard) = []"
proof -
  have ok: "resp_error fetched_row = None" "resp_error succeeded = None"
    and ko: "resp_error (failed :: unit response) = Some (ErrorInstance ''connection lost'')"
      "resp_error (failed :: system_state_row response) = Some (ErrorInstance ''connection lost'')"
    by (simp_all add: fetched_row_def succeeded_def failed_def)
  note all_fine = settings_change_sequence
    [where newStatus = Armed and eventType = "''armed''" and uid = "Some ''u1''"
       and fetched = fetched_row and updated = succeeded and logged = succeeded
       and p = idle_panel and r = succeeded and s = sample_dashboard and armed = True
       and n = 85
       and e = "ErrorInstance ''connection lost''", unfolded Let_def]
  note update_fails = settings_change_sequence
    [where newStatus = Armed and eventType = "''armed''" and uid = "Some ''u1''"
       and fetched = fetched_row and updated = failed and logged = succeeded
       and p = idle_panel and r = failed and s = sample_dashboard and armed = True
       and n = 85
       and e = "ErrorInstance ''connection lost''", unfolded Let_def]
  note insert_fails = settings_change_sequence
    [where newStatus = Armed and eventType = "''armed''" and uid = "Some ''u1''"
       and fetched = fetched_row and updated = succeeded and logged = failed
       and p = idle_panel and e = "ErrorInstance ''connection lost''", unfolded Let_def]
  note select_fails = settings_change_sequence
    [where newStatus = Armed and eventType = "''armed''" and uid = "Some ''u1''"
       and fetched = failed and updated = succeeded and logged = succeeded
       and p = idle_panel and e = "ErrorInstance ''connection lost''", unfolded Let_def]
  have "store_calls (updateSystemState Armed ''armed'' (Some ''u1'') fetched_row succeeded
          succeeded idle_panel)
        = [SelectSystemState, UpdateSystemState Armed (Some ''row1''),
           InsertActivityLog \<lparr>event_type = ''armed'', status_before = Some Disarmed,
                              status_after = Armed, log_user_id = Some ''u1''\<rparr>]"
    and "onUpdate_called (updateSystemState Armed ''armed'' (Some ''u1'') fetched_row succeeded
          succeeded idle_panel)"
    and "map_option is_armed (settings (after (handleArmedChange True succeeded sample_dashboard)))
         = Some True"
    and "map_option alert_threshold
           (settings (after (handleThresholdChange 85 succeeded sample_dashboard))) = Some 85"
    and "console (handleThresholdChange 85 succeeded sample_dashboard) = []"
    using all_fine ok by (simp_all add: fetched_row_def sample_dashboard_def)
  moreover have "store_calls (updateSystemState Armed ''armed'' (Some ''u1'') fetched_row failed
          succeeded idle_panel)
        = [SelectSystemState, UpdateSystemState Armed (Some ''row1'')]"
    and "cp_error (panel (updateSystemState Armed ''armed'' (Some ''u1'') fetched_row failed
          succeeded idle_panel)) = ''connection lost''"
    and "after (handleArmedChange True failed sample_dashboard) = sample_dashboard"
    and "console (handleArmedChange True failed sample_dashboard)
         = [''Error updating armed status:'']"
    and "after (handleThresholdChange 85 failed sample_dashboard) = sample_dashboard"
    and "console (handleThresholdChange 85 failed sample_dashboard)
         = [''Error updating threshold:'']"
    using update_fails ok ko by (simp_all add: fetched_row_def error_message_def)
  moreover have "cp_error (panel (updateSystemState Armed ''armed'' (Some ''u1'') fetched_row
          succeeded failed idle_panel)) = ''connection lost''"
    using insert_fails ok ko by (simp add: error_message_def)
  moreover have "store_calls (updateSystemState Armed ''armed'' (Some ''u1'') failed succeeded
          succeeded idle_panel) = [SelectSystemState]"
    using select_fails ko by simp
  ultimately show ?thesis using ok ko by simp
qed

section \<open>Properties of the theme preference\<close>

text \<open>
  C10. Without a stored preference the theme is dark. After a toggle the stored value
  is \<open>dark\<close> exactly when the theme in memory is dark (and \<open>light\<close> otherwise), so
  that a later start reads back the same theme; two toggles give back the theme there
  was.
\<close>

theorem theme_in_sync:
  "isDark (useTheme (st(''lumoraTheme'' := None))) = True
   \<and> (storage (toggleTheme s) ''lumoraTheme'' = Some ''dark'') = isDark (toggleTheme s)
   \<and> storage (toggleTheme s) ''lumoraTheme''
       = Some (if isDark (toggleTheme s) then ''dark'' else ''light'')
   \<and> isDark (toggleTheme (toggleTheme s)) = isDark s
   \<and> isDark (useTheme (storage (toggleTheme s))) = isDark (toggleTheme s)"
  by (simp add: useTheme_def toggleTheme_def Let_def)

end
